theory Spec2Isabelle
  imports Complex_Main "HOL-Library.Sublist" "HOL-Library.Word"
begin

section \<open>Data model\<close>

text \<open>
  The records follow \<^verbatim>\<open>interfaces/upload-config.interface.ts\<close>. A TypeScript
  \<^verbatim>\<open>number\<close> that holds a byte count of a file, a port, a pixel bound or a quality is
  an \<^typ>\<open>int\<close>; \<^verbatim>\<open>defaultMaxSize\<close>, which the builder stores as given and then tests
  for truthiness, is a \<open>number\<close> with all the values of a JavaScript number. An optional
  property (\<^verbatim>\<open>x?: T\<close>) is an \<^typ>\<open>'a option\<close>, with \<open>None\<close> for \<^verbatim>\<open>undefined\<close>.
  The object \<^verbatim>\<open>fileTypes\<close> is given by a map: a key other than \<^verbatim>\<open>__proto__\<close> is an
  own property, and the entry under \<^verbatim>\<open>__proto__\<close>, if any, is the prototype of the
  object (what the assignment \<^verbatim>\<open>fileTypes["__proto__"] = config\<close> sets); without that
  entry the prototype is \<^verbatim>\<open>Object.prototype\<close>. Reading a property through the prototype
  chain is \<open>lookup_fileType\<close> below.
  Where two interfaces use one property name, the later record prefixes it:
  \<open>gcp_bucket\<close> is \<^verbatim>\<open>GCPStorageConfig.bucket\<close>, \<open>storage_type\<close> and \<open>storage_config\<close>
  are \<^verbatim>\<open>StorageConfig.type\<close> and \<^verbatim>\<open>StorageConfig.config\<close>, and the anonymous object
  types of \<^verbatim>\<open>virus\<close>, \<^verbatim>\<open>compression\<close> and \<^verbatim>\<open>chunks\<close> are the records
  \<open>VirusConfig\<close>, \<open>CompressionConfig\<close> and \<open>ChunksConfig\<close>.
\<close>

type_synonym bytes = "8 word list"

text \<open>A JavaScript number: a finite value (\<open>-0\<close> is not told apart from \<open>0\<close>), an
  infinity, or \<^verbatim>\<open>NaN\<close>.\<close>

datatype number = Finite real | PosInfinity | NegInfinity | NaN

record FileTypeConfig =
  maxSize :: int
  allowedMimeTypes :: "string list"
  allowedExtensions :: "string list"

record LocalStorageConfig =
  destination :: string

record S3StorageConfig =
  accessKeyId :: string
  secretAccessKey :: string
  region :: string
  bucket :: string
  endpoint :: "string option"

record AzureStorageConfig =
  connectionString :: string
  container :: string

record GCPStorageConfig =
  projectId :: string
  keyFilename :: string
  gcp_bucket :: string

datatype StorageConfigUnion =
    Local LocalStorageConfig
  | S3 S3StorageConfig
  | Azure AzureStorageConfig
  | GCP GCPStorageConfig

record StorageConfig =
  storage_type :: string
  storage_config :: StorageConfigUnion

record ClamAVConfig =
  host :: string
  port :: int

record VirusScanConfig =
  clamav :: ClamAVConfig

record VirusConfig =
  virus_enabled :: bool
  virus_config :: "VirusScanConfig option"

record CompressionOptions =
  quality :: "int option"
  maxWidth :: "int option"
  maxHeight :: "int option"

record CompressionConfig =
  compression_enabled :: bool
  compression_config :: "CompressionOptions option"

record ChunksConfig =
  chunks_enabled :: bool
  chunks_size :: "int option"

record UploadConfig =
  storage :: StorageConfig
  fileTypes :: "string \<rightharpoonup> FileTypeConfig"
  defaultMaxSize :: number
  virus :: "VirusConfig option"
  compression :: "CompressionConfig option"
  chunks :: "ChunksConfig option"

text \<open>
  \<^verbatim>\<open>Express.Multer.File\<close>, the four properties the service reads. \<open>fsize\<close> is the
  property \<^verbatim>\<open>size\<close>.
\<close>

record File =
  buffer :: bytes
  mimetype :: string
  originalname :: string
  fsize :: int

subsection \<open>Errors\<close>

text \<open>
  Every \<^verbatim>\<open>throw new Error(...)\<close> of the source is one constructor, carrying the values
  its message interpolates. \<open>ScanFailed e\<close> is the error built at the \<^verbatim>\<open>catch\<close> of
  \<^verbatim>\<open>scanForVirus\<close>, \<^verbatim>\<open>Virus scan failed: ${error.message}\<close>, for the caught error \<open>e\<close>;
  \<open>CompressionError e\<close> likewise for \<^verbatim>\<open>Image compression failed: ${error.message}\<close>.
  \<open>TypeError\<close> is the error the runtime throws when a property of \<^verbatim>\<open>undefined\<close> is read.
  \<open>External m\<close> is an exception with message \<open>m\<close> raised by a library the service
  calls (the codec, the scanner client, the file system, a storage client).
\<close>

datatype error =
    StorageRequired
  | FileTypesRequired
  | UnsupportedFileType string
  | FileTooLarge int
  | InvalidMimeType string
  | InvalidExtension "string option"
  | ScannerMisconfigured
  | InfectedFile "string list"
  | ScanFailed error
  | CompressionError error
  | UnsupportedStorageType string
  | TypeError
  | External string

section \<open>JavaScript primitives used by the service\<close>

text \<open>\<^verbatim>\<open>s.split(".")\<close>: the pieces of \<open>s\<close> between the separators, never an empty array.\<close>

fun split_on :: "char \<Rightarrow> string \<Rightarrow> string list" where
  "split_on sep [] = [[]]"
| "split_on sep (c # cs) =
     (if c = sep then [] # split_on sep cs
      else (case split_on sep cs of
              [] \<Rightarrow> [[c]]
            | w # ws \<Rightarrow> (c # w) # ws))"

text \<open>\<^verbatim>\<open>xs.pop()\<close> as a value: the last element, \<^verbatim>\<open>undefined\<close> on an empty array.\<close>

definition pop :: "'a list \<Rightarrow> 'a option" where
  "pop xs = (if xs = [] then None else Some (last xs))"

text \<open>A property name given as a value that may be \<^verbatim>\<open>undefined\<close>: \<^verbatim>\<open>obj[undefined]\<close>
  reads the property named \<^verbatim>\<open>undefined\<close>; a template literal prints it the same way.\<close>

definition to_string :: "string option \<Rightarrow> string" where
  "to_string v = (case v of None \<Rightarrow> ''undefined'' | Some s \<Rightarrow> s)"

text \<open>\<^verbatim>\<open>xs.includes(v)\<close> on an array of strings: \<^verbatim>\<open>undefined\<close> is never a member.\<close>

fun array_includes :: "string list \<Rightarrow> string option \<Rightarrow> bool" where
  "array_includes [] v = False"
| "array_includes (x # xs) v = (Some x = v \<or> array_includes xs v)"

text \<open>Truthiness of an optional number: \<^verbatim>\<open>undefined\<close> and \<open>0\<close> are falsy, and so is
  \<^verbatim>\<open>NaN\<close> where the number can be one.\<close>

definition truthy :: "int option \<Rightarrow> bool" where
  "truthy v = (case v of None \<Rightarrow> False | Some n \<Rightarrow> n \<noteq> 0)"

fun truthy_number :: "number option \<Rightarrow> bool" where
  "truthy_number None = False"
| "truthy_number (Some (Finite x)) = (x \<noteq> 0)"
| "truthy_number (Some PosInfinity) = True"
| "truthy_number (Some NegInfinity) = True"
| "truthy_number (Some NaN) = False"

text \<open>
  What \<^verbatim>\<open>this.config.fileTypes[key]\<close> evaluates to: a file type configuration, a falsy
  value (\<^verbatim>\<open>undefined\<close>, or the number \<open>0\<close>), or some other truthy value that is not a
  file type configuration and has none of its properties (a function or an object
  inherited from \<^verbatim>\<open>Object.prototype\<close>; an array or a number found on a prototype that
  \<^verbatim>\<open>fileTypes["__proto__"] = config\<close> has set).
\<close>

datatype probe = Falsy | Config FileTypeConfig | Other

text \<open>The property names of \<^verbatim>\<open>Object.prototype\<close>.\<close>

definition object_prototype_names :: "string list" where
  "object_prototype_names =
     [''constructor'', ''__defineGetter__'', ''__defineSetter__'', ''hasOwnProperty'',
      ''__lookupGetter__'', ''__lookupSetter__'', ''isPrototypeOf'',
      ''propertyIsEnumerable'', ''toString'', ''valueOf'', ''__proto__'',
      ''toLocaleString'']"

text \<open>
  The property read \<^verbatim>\<open>fileTypes[key]\<close>: an own property first (for \<^verbatim>\<open>__proto__\<close>, the
  prototype that was set); then, if a prototype was set, its three own properties; then
  \<^verbatim>\<open>Object.prototype\<close>.
\<close>

definition lookup_fileType :: "(string \<rightharpoonup> FileTypeConfig) \<Rightarrow> string \<Rightarrow> probe" where
  "lookup_fileType ft key =
     (case ft key of
        Some c \<Rightarrow> Config c
      | None \<Rightarrow>
          (case ft ''__proto__'' of
             Some p \<Rightarrow>
               if key = ''maxSize'' then (if maxSize p = 0 then Falsy else Other)
               else if key = ''allowedMimeTypes'' \<or> key = ''allowedExtensions'' then Other
               else if key \<in> set object_prototype_names then Other
               else Falsy
           | None \<Rightarrow> if key \<in> set object_prototype_names then Other else Falsy))"

text \<open>\<^verbatim>\<open>a || b\<close> on two such values.\<close>

definition or_else :: "probe \<Rightarrow> probe \<Rightarrow> probe" where
  "or_else a b = (case a of Falsy \<Rightarrow> b | Config c \<Rightarrow> Config c | Other \<Rightarrow> Other)"

section \<open>Validation\<close>

text \<open>\<^verbatim>\<open>file.originalname.split(".").pop()\<close>, written twice in \<^verbatim>\<open>validateFile\<close>.\<close>

definition fileExtension :: "File \<Rightarrow> string option" where
  "fileExtension file = pop (split_on CHR ''.'' (originalname file))"

text \<open>
  \<^verbatim>\<open>UploadService.validateFile\<close>: returns normally (\<open>Inr ()\<close>) or throws. When
  \<^verbatim>\<open>fileTypeConfig\<close> is a truthy value that is not a file type configuration, its
  \<^verbatim>\<open>maxSize\<close> is \<^verbatim>\<open>undefined\<close>, the size comparison is false, and
  \<^verbatim>\<open>fileTypeConfig.allowedMimeTypes.includes\<close> reads a property of \<^verbatim>\<open>undefined\<close>.
\<close>

definition validateFile :: "UploadConfig \<Rightarrow> File \<Rightarrow> error + unit" where
  "validateFile cfg file =
     (case or_else (lookup_fileType (fileTypes cfg) (mimetype file))
                   (lookup_fileType (fileTypes cfg) (to_string (fileExtension file))) of
        Falsy \<Rightarrow> Inl (UnsupportedFileType (mimetype file))
      | Other \<Rightarrow> Inl TypeError
      | Config fileTypeConfig \<Rightarrow>
          if fsize file > maxSize fileTypeConfig
          then Inl (FileTooLarge (maxSize fileTypeConfig))
          else if \<not> array_includes (allowedMimeTypes fileTypeConfig) (Some (mimetype file))
          then Inl (InvalidMimeType (mimetype file))
          else if \<not> array_includes (allowedExtensions fileTypeConfig) (fileExtension file)
          then Inl (InvalidExtension (fileExtension file))
          else Inr ())"

section \<open>Collaborators\<close>

text \<open>
  The libraries the service calls are parameters of the model: what each call returns or
  throws is a field of \<open>Env\<close> (\<open>Inl m\<close> and \<open>Some m\<close> are an exception with message \<open>m\<close>),
  and the calls made to the codec, the scanner and the storage backends are logged as
  events, with their arguments, in the order they are made. \<open>'img\<close> is the codec's
  pipeline object (\<^verbatim>\<open>sharp.Sharp\<close>).
\<close>

record S3ClientConfig =
  client_region :: "string option"
  client_endpoint :: "string option"
  client_accessKeyId :: "string option"
  client_secretAccessKey :: "string option"

record PutObjectCommandInput =
  Bucket :: "string option"
  Key :: string
  Body :: bytes
  ContentType :: string

datatype event =
    SharpResize "int option" "int option"
  | SharpJpeg int
  | SharpToBuffer
  | ClamInit string int
  | ClamScanStream bytes
  | FsWriteFile string bytes
  | S3Send S3ClientConfig PutObjectCommandInput
  | AzureUpload "string option" "string option" string bytes string
  | GcpSave "string option" "string option" "string option" string bytes string

record 'img Env =
  sharp :: "bytes \<Rightarrow> 'img"
  sharp_resize :: "'img \<Rightarrow> int option \<Rightarrow> int option \<Rightarrow> string + 'img"
  sharp_jpeg :: "'img \<Rightarrow> int \<Rightarrow> string + 'img"
  sharp_toBuffer :: "'img \<Rightarrow> string + bytes"
  clam_init :: "string \<Rightarrow> int \<Rightarrow> string option"
  clam_scanStream :: "string \<Rightarrow> int \<Rightarrow> bytes \<Rightarrow> string + (bool \<times> string list)"
  path_join :: "string option \<Rightarrow> string \<Rightarrow> string + string"
  fs_writeFile :: "string \<Rightarrow> bytes \<Rightarrow> string option"
  s3_send :: "S3ClientConfig \<Rightarrow> PutObjectCommandInput \<Rightarrow> string option"
  azure_upload ::
    "string option \<Rightarrow> string option \<Rightarrow> string \<Rightarrow> bytes \<Rightarrow> string \<Rightarrow> string + string"
  gcp_save ::
    "string option \<Rightarrow> string option \<Rightarrow> string option \<Rightarrow> string \<Rightarrow> bytes \<Rightarrow> string
      \<Rightarrow> string option"

text \<open>An event that hands file content to the scanner or to a storage backend, and the
  content it hands over.\<close>

fun content_of :: "event \<Rightarrow> bytes option" where
  "content_of (ClamScanStream b) = Some b"
| "content_of (FsWriteFile p b) = Some b"
| "content_of (S3Send c i) = Some (Body i)"
| "content_of (AzureUpload cs ct n b m) = Some b"
| "content_of (GcpSave pr k bk n b m) = Some b"
| "content_of e = None"

text \<open>A call of a storage backend (a write or a put).\<close>

fun is_store :: "event \<Rightarrow> bool" where
  "is_store (FsWriteFile p b) = True"
| "is_store (S3Send c i) = True"
| "is_store (AzureUpload cs ct n b m) = True"
| "is_store (GcpSave pr k bk n b m) = True"
| "is_store e = False"

section \<open>Image compression\<close>

definition compression_on :: "UploadConfig \<Rightarrow> bool" where
  "compression_on cfg =
     (case compression cfg of None \<Rightarrow> False | Some c \<Rightarrow> compression_enabled c)"

text \<open>\<^verbatim>\<open>this.config.compression.config || {}\<close>\<close>

definition compression_options :: "UploadConfig \<Rightarrow> CompressionOptions" where
  "compression_options cfg =
     (case compression cfg of
        None \<Rightarrow> \<lparr>quality = None, maxWidth = None, maxHeight = None\<rparr>
      | Some c \<Rightarrow>
          (case compression_config c of
             None \<Rightarrow> \<lparr>quality = None, maxWidth = None, maxHeight = None\<rparr>
           | Some opts \<Rightarrow> opts))"

text \<open>\<^verbatim>\<open>if (maxWidth || maxHeight) image = image.resize(maxWidth, maxHeight, ...)\<close>\<close>

definition resize_step ::
  "'img Env \<Rightarrow> CompressionOptions \<Rightarrow> 'img \<Rightarrow> (string + 'img) \<times> event list" where
  "resize_step env opts img =
     (if truthy (maxWidth opts) \<or> truthy (maxHeight opts)
      then (sharp_resize env img (maxWidth opts) (maxHeight opts),
            [SharpResize (maxWidth opts) (maxHeight opts)])
      else (Inr img, []))"

text \<open>\<^verbatim>\<open>if (quality) image = image.jpeg({ quality })\<close>\<close>

definition jpeg_step ::
  "'img Env \<Rightarrow> CompressionOptions \<Rightarrow> 'img \<Rightarrow> (string + 'img) \<times> event list" where
  "jpeg_step env opts img =
     (case quality opts of
        None \<Rightarrow> (Inr img, [])
      | Some q \<Rightarrow>
          if q \<noteq> 0 then (sharp_jpeg env img q, [SharpJpeg q]) else (Inr img, []))"

text \<open>\<^verbatim>\<open>UploadService.compressImage\<close>. Only \<^verbatim>\<open>toBuffer\<close> is inside the \<^verbatim>\<open>try\<close>.\<close>

definition compressImage ::
  "UploadConfig \<Rightarrow> 'img Env \<Rightarrow> File \<Rightarrow> (error + bytes) \<times> event list" where
  "compressImage cfg env file =
     (if \<not> compression_on cfg then (Inr (buffer file), [])
      else
        (case resize_step env (compression_options cfg) (sharp env (buffer file)) of
           (Inl m, t1) \<Rightarrow> (Inl (External m), t1)
         | (Inr image1, t1) \<Rightarrow>
             (case jpeg_step env (compression_options cfg) image1 of
                (Inl m, t2) \<Rightarrow> (Inl (External m), t1 @ t2)
              | (Inr image2, t2) \<Rightarrow>
                  (case sharp_toBuffer env image2 of
                     Inl m \<Rightarrow> (Inl (CompressionError (External m)), t1 @ t2 @ [SharpToBuffer])
                   | Inr b \<Rightarrow> (Inr b, t1 @ t2 @ [SharpToBuffer])))))"

section \<open>Virus scan\<close>

definition virus_on :: "UploadConfig \<Rightarrow> bool" where
  "virus_on cfg = (case virus cfg of None \<Rightarrow> False | Some v \<Rightarrow> virus_enabled v)"

text \<open>The body of the \<^verbatim>\<open>try\<close> block of \<^verbatim>\<open>scanForVirus\<close>: the call of \<^verbatim>\<open>scanStream\<close> and
  the \<^verbatim>\<open>throw\<close> on \<^verbatim>\<open>isInfected\<close>.\<close>

definition scan_try :: "'img Env \<Rightarrow> ClamAVConfig \<Rightarrow> File \<Rightarrow> error + unit" where
  "scan_try env clamavConfig file =
     (case clam_scanStream env (host clamavConfig) (port clamavConfig) (buffer file) of
        Inl m \<Rightarrow> Inl (External m)
      | Inr (isInfected, viruses) \<Rightarrow>
          if isInfected then Inl (InfectedFile viruses) else Inr ())"

text \<open>\<^verbatim>\<open>UploadService.scanForVirus\<close>. The \<^verbatim>\<open>catch\<close> rethrows whatever the \<^verbatim>\<open>try\<close> block
  threw as \<open>ScanFailed\<close>.\<close>

definition scanForVirus ::
  "UploadConfig \<Rightarrow> 'img Env \<Rightarrow> File \<Rightarrow> (error + unit) \<times> event list" where
  "scanForVirus cfg env file =
     (case virus cfg of
        None \<Rightarrow> (Inr (), [])
      | Some v \<Rightarrow>
          if \<not> virus_enabled v then (Inr (), [])
          else
            (case virus_config v of
               None \<Rightarrow> (Inl ScannerMisconfigured, [])
             | Some vc \<Rightarrow>
                 (case clam_init env (host (clamav vc)) (port (clamav vc)) of
                    Some m \<Rightarrow>
                      (Inl (External m), [ClamInit (host (clamav vc)) (port (clamav vc))])
                  | None \<Rightarrow>
                      (case scan_try env (clamav vc) file of
                         Inl e \<Rightarrow>
                           (Inl (ScanFailed e),
                            [ClamInit (host (clamav vc)) (port (clamav vc)),
                             ClamScanStream (buffer file)])
                       | Inr u \<Rightarrow>
                           (Inr (),
                            [ClamInit (host (clamav vc)) (port (clamav vc)),
                             ClamScanStream (buffer file)])))))"

section \<open>Storage backends\<close>

text \<open>
  \<^verbatim>\<open>this.config.storage.config as S3StorageConfig\<close> and its siblings are unchecked casts:
  the object is read by property name whatever its variant, and a property it does not
  have reads \<^verbatim>\<open>undefined\<close>.
\<close>

fun read_prop :: "StorageConfigUnion \<Rightarrow> string \<Rightarrow> string option" where
  "read_prop (Local c) k = (if k = ''destination'' then Some (destination c) else None)"
| "read_prop (S3 c) k =
     (if k = ''accessKeyId'' then Some (accessKeyId c)
      else if k = ''secretAccessKey'' then Some (secretAccessKey c)
      else if k = ''region'' then Some (region c)
      else if k = ''bucket'' then Some (bucket c)
      else if k = ''endpoint'' then endpoint c
      else None)"
| "read_prop (Azure c) k =
     (if k = ''connectionString'' then Some (connectionString c)
      else if k = ''container'' then Some (container c)
      else None)"
| "read_prop (GCP c) k =
     (if k = ''projectId'' then Some (projectId c)
      else if k = ''keyFilename'' then Some (keyFilename c)
      else if k = ''bucket'' then Some (gcp_bucket c)
      else None)"

definition storeFileLocally ::
  "UploadConfig \<Rightarrow> 'img Env \<Rightarrow> File \<Rightarrow> string \<Rightarrow> (error + string) \<times> event list" where
  "storeFileLocally cfg env file filename =
     (case path_join env (read_prop (storage_config (storage cfg)) ''destination'') filename of
        Inl m \<Rightarrow> (Inl (External m), [])
      | Inr filePath \<Rightarrow>
          (case fs_writeFile env filePath (buffer file) of
             Some m \<Rightarrow> (Inl (External m), [FsWriteFile filePath (buffer file)])
           | None \<Rightarrow> (Inr filePath, [FsWriteFile filePath (buffer file)])))"

definition s3_client :: "StorageConfigUnion \<Rightarrow> S3ClientConfig" where
  "s3_client s3Config =
     \<lparr>client_region = read_prop s3Config ''region'',
      client_endpoint = read_prop s3Config ''endpoint'',
      client_accessKeyId = read_prop s3Config ''accessKeyId'',
      client_secretAccessKey = read_prop s3Config ''secretAccessKey''\<rparr>"

definition s3_command :: "StorageConfigUnion \<Rightarrow> File \<Rightarrow> string \<Rightarrow> PutObjectCommandInput" where
  "s3_command s3Config file filename =
     \<lparr>Bucket = read_prop s3Config ''bucket'', Key = filename, Body = buffer file,
      ContentType = mimetype file\<rparr>"

definition storeFileToS3 ::
  "UploadConfig \<Rightarrow> 'img Env \<Rightarrow> File \<Rightarrow> string \<Rightarrow> (error + string) \<times> event list" where
  "storeFileToS3 cfg env file filename =
     (let s3Config = storage_config (storage cfg);
          sent = [S3Send (s3_client s3Config) (s3_command s3Config file filename)]
      in case s3_send env (s3_client s3Config) (s3_command s3Config file filename) of
           Some m \<Rightarrow> (Inl (External m), sent)
         | None \<Rightarrow>
             (Inr (''https://'' @ to_string (read_prop s3Config ''bucket'') @ ''.s3.''
                   @ to_string (read_prop s3Config ''region'') @ ''.amazonaws.com/'' @ filename),
              sent))"

definition storeFileToAzure ::
  "UploadConfig \<Rightarrow> 'img Env \<Rightarrow> File \<Rightarrow> string \<Rightarrow> (error + string) \<times> event list" where
  "storeFileToAzure cfg env file filename =
     (let azureConfig = storage_config (storage cfg);
          sent = [AzureUpload (read_prop azureConfig ''connectionString'')
                    (read_prop azureConfig ''container'') filename (buffer file) (mimetype file)]
      in case azure_upload env (read_prop azureConfig ''connectionString'')
                (read_prop azureConfig ''container'') filename (buffer file) (mimetype file) of
           Inl m \<Rightarrow> (Inl (External m), sent)
         | Inr url \<Rightarrow> (Inr url, sent))"

definition storeFileToGCP ::
  "UploadConfig \<Rightarrow> 'img Env \<Rightarrow> File \<Rightarrow> string \<Rightarrow> (error + string) \<times> event list" where
  "storeFileToGCP cfg env file filename =
     (let gcpConfig = storage_config (storage cfg);
          sent = [GcpSave (read_prop gcpConfig ''projectId'') (read_prop gcpConfig ''keyFilename'')
                    (read_prop gcpConfig ''bucket'') filename (buffer file) (mimetype file)]
      in case gcp_save env (read_prop gcpConfig ''projectId'') (read_prop gcpConfig ''keyFilename'')
                (read_prop gcpConfig ''bucket'') filename (buffer file) (mimetype file) of
           Some m \<Rightarrow> (Inl (External m), sent)
         | None \<Rightarrow>
             (Inr (''https://storage.googleapis.com/'' @ to_string (read_prop gcpConfig ''bucket'')
                   @ ''/'' @ filename),
              sent))"

text \<open>\<^verbatim>\<open>UploadService.storeFile\<close>: the \<^verbatim>\<open>switch\<close> on \<^verbatim>\<open>storage.type\<close>.\<close>

definition storeFile ::
  "UploadConfig \<Rightarrow> 'img Env \<Rightarrow> File \<Rightarrow> string \<Rightarrow> (error + string) \<times> event list" where
  "storeFile cfg env file filename =
     (if storage_type (storage cfg) = ''local'' then storeFileLocally cfg env file filename
      else if storage_type (storage cfg) = ''s3'' then storeFileToS3 cfg env file filename
      else if storage_type (storage cfg) = ''azure'' then storeFileToAzure cfg env file filename
      else if storage_type (storage cfg) = ''gcp'' then storeFileToGCP cfg env file filename
      else (Inl (UnsupportedStorageType (storage_type (storage cfg))), []))"

section \<open>The upload pipeline\<close>

text \<open>Lines 35 to 42 of \<^verbatim>\<open>uploadFile\<close>: the scan, if enabled, then the store under
  \<^verbatim>\<open>file.originalname\<close>. The result is the \<^verbatim>\<open>url\<close> of the returned object.\<close>

definition scan_and_store ::
  "UploadConfig \<Rightarrow> 'img Env \<Rightarrow> File \<Rightarrow> (error + string) \<times> event list" where
  "scan_and_store cfg env file =
     (case (if virus_on cfg then scanForVirus cfg env file else (Inr (), [])) of
        (Inl e, t1) \<Rightarrow> (Inl e, t1)
      | (Inr u, t1) \<Rightarrow>
          (case storeFile cfg env file (originalname file) of
             (r, t2) \<Rightarrow> (r, t1 @ t2)))"

text \<open>\<^verbatim>\<open>UploadService.uploadFile\<close>. \<^verbatim>\<open>file.buffer = await this.compressImage(file)\<close>
  replaces the content before the later stages read it.\<close>

definition uploadFile ::
  "UploadConfig \<Rightarrow> 'img Env \<Rightarrow> File \<Rightarrow> (error + string) \<times> event list" where
  "uploadFile cfg env file =
     (case validateFile cfg file of
        Inl e \<Rightarrow> (Inl e, [])
      | Inr u \<Rightarrow>
          if prefix ''image/'' (mimetype file)
          then (case compressImage cfg env file of
                  (Inl e, t0) \<Rightarrow> (Inl e, t0)
                | (Inr b, t0) \<Rightarrow>
                    (case scan_and_store cfg env (file\<lparr>buffer := b\<rparr>) of
                       (r, t1) \<Rightarrow> (r, t0 @ t1)))
          else scan_and_store cfg env file)"

section \<open>The configuration builder\<close>

text \<open>
  \<^verbatim>\<open>Partial<UploadConfig>\<close>: the object the builder fills, every property optional (\<open>p_x\<close>
  is its property \<^verbatim>\<open>x\<close>). The nested object \<^verbatim>\<open>fileTypes\<close> is reachable only through this
  object, so it is held inline.
\<close>

record PartialUploadConfig =
  p_storage :: "StorageConfig option"
  p_fileTypes :: "(string \<rightharpoonup> FileTypeConfig) option"
  p_defaultMaxSize :: "number option"
  p_virus :: "VirusConfig option"
  p_compression :: "CompressionConfig option"
  p_chunks :: "ChunksConfig option"

text \<open>
  Objects live in a store and are named by references: \<open>objs h r\<close> is the object at
  reference \<open>r\<close>, \<open>next_ref h\<close> the first reference not yet allocated. A builder is its
  private field \<^verbatim>\<open>config\<close>, a reference to the object it fills.
\<close>

record heap =
  objs :: "nat \<Rightarrow> PartialUploadConfig"
  next_ref :: nat

record UploadConfigBuilder =
  config :: nat

definition empty_object :: PartialUploadConfig where
  "empty_object =
     \<lparr>p_storage = None, p_fileTypes = None, p_defaultMaxSize = None, p_virus = None,
      p_compression = None, p_chunks = None\<rparr>"

text \<open>\<^verbatim>\<open>new UploadConfigBuilder()\<close>: \<^verbatim>\<open>private config: Partial<UploadConfig> = {}\<close>.\<close>

definition new_UploadConfigBuilder :: "heap \<Rightarrow> UploadConfigBuilder \<times> heap" where
  "new_UploadConfigBuilder h =
     (\<lparr>config = next_ref h\<rparr>,
      h\<lparr>objs := (objs h)(next_ref h := empty_object), next_ref := Suc (next_ref h)\<rparr>)"

text \<open>An assignment to properties of \<^verbatim>\<open>this.config\<close>: the object is updated in place.\<close>

definition assign ::
  "UploadConfigBuilder \<Rightarrow> (PartialUploadConfig \<Rightarrow> PartialUploadConfig) \<Rightarrow> heap \<Rightarrow> heap" where
  "assign this f h = h\<lparr>objs := (objs h)(config this := f (objs h (config this)))\<rparr>"

text \<open>The setters, each as the assignment it makes to \<^verbatim>\<open>this.config\<close>.\<close>

definition useLocalStorage :: "string \<Rightarrow> PartialUploadConfig \<Rightarrow> PartialUploadConfig" where
  "useLocalStorage d obj =
     obj\<lparr>p_storage :=
       Some \<lparr>storage_type = ''local'', storage_config = Local \<lparr>destination = d\<rparr>\<rparr>\<rparr>"

definition useS3Storage ::
  "string \<Rightarrow> string \<Rightarrow> string \<Rightarrow> string \<Rightarrow> string option
     \<Rightarrow> PartialUploadConfig \<Rightarrow> PartialUploadConfig" where
  "useS3Storage a s r b e obj =
     obj\<lparr>p_storage :=
       Some \<lparr>storage_type = ''s3'',
             storage_config =
               S3 \<lparr>accessKeyId = a, secretAccessKey = s, region = r, bucket = b,
                   endpoint = e\<rparr>\<rparr>\<rparr>"

definition useAzureStorage ::
  "string \<Rightarrow> string \<Rightarrow> PartialUploadConfig \<Rightarrow> PartialUploadConfig" where
  "useAzureStorage cs ct obj =
     obj\<lparr>p_storage :=
       Some \<lparr>storage_type = ''azure'',
             storage_config = Azure \<lparr>connectionString = cs, container = ct\<rparr>\<rparr>\<rparr>"

definition useGCPStorage ::
  "string \<Rightarrow> string \<Rightarrow> string \<Rightarrow> PartialUploadConfig \<Rightarrow> PartialUploadConfig" where
  "useGCPStorage pr k b obj =
     obj\<lparr>p_storage :=
       Some \<lparr>storage_type = ''gcp'',
             storage_config = GCP \<lparr>projectId = pr, keyFilename = k, gcp_bucket = b\<rparr>\<rparr>\<rparr>"

definition setFileType ::
  "string \<Rightarrow> FileTypeConfig \<Rightarrow> PartialUploadConfig \<Rightarrow> PartialUploadConfig" where
  "setFileType name c obj =
     obj\<lparr>p_fileTypes :=
       Some ((case p_fileTypes obj of None \<Rightarrow> Map.empty | Some m \<Rightarrow> m)(name \<mapsto> c))\<rparr>"

definition setDefaultMaxSize :: "number \<Rightarrow> PartialUploadConfig \<Rightarrow> PartialUploadConfig" where
  "setDefaultMaxSize n obj = obj\<lparr>p_defaultMaxSize := Some n\<rparr>"

definition enableVirusScanning ::
  "string \<Rightarrow> int \<Rightarrow> PartialUploadConfig \<Rightarrow> PartialUploadConfig" where
  "enableVirusScanning hst prt obj =
     obj\<lparr>p_virus :=
       Some \<lparr>virus_enabled = True,
             virus_config = Some \<lparr>clamav = \<lparr>host = hst, port = prt\<rparr>\<rparr>\<rparr>\<rparr>"

definition enableCompression ::
  "int option \<Rightarrow> int option \<Rightarrow> int option \<Rightarrow> PartialUploadConfig \<Rightarrow> PartialUploadConfig" where
  "enableCompression q w ht obj =
     obj\<lparr>p_compression :=
       Some \<lparr>compression_enabled = True,
             compression_config = Some \<lparr>quality = q, maxWidth = w, maxHeight = ht\<rparr>\<rparr>\<rparr>"

definition enableChunkedUploads ::
  "int option \<Rightarrow> PartialUploadConfig \<Rightarrow> PartialUploadConfig" where
  "enableChunkedUploads n obj =
     obj\<lparr>p_chunks := Some \<lparr>chunks_enabled = True, chunks_size = n\<rparr>\<rparr>"

text \<open>A call of a setter on a builder, and a sequence of such calls (what a
  \<^verbatim>\<open>configCallback\<close> does with the builder it is given).\<close>

datatype builder_call =
    UseLocalStorage string
  | UseS3Storage string string string string "string option"
  | UseAzureStorage string string
  | UseGCPStorage string string string
  | SetFileType string FileTypeConfig
  | SetDefaultMaxSize number
  | EnableVirusScanning string int
  | EnableCompression "int option" "int option" "int option"
  | EnableChunkedUploads "int option"

fun setter :: "builder_call \<Rightarrow> PartialUploadConfig \<Rightarrow> PartialUploadConfig" where
  "setter (UseLocalStorage d) = useLocalStorage d"
| "setter (UseS3Storage a s r b e) = useS3Storage a s r b e"
| "setter (UseAzureStorage cs ct) = useAzureStorage cs ct"
| "setter (UseGCPStorage pr k b) = useGCPStorage pr k b"
| "setter (SetFileType name c) = setFileType name c"
| "setter (SetDefaultMaxSize n) = setDefaultMaxSize n"
| "setter (EnableVirusScanning hst prt) = enableVirusScanning hst prt"
| "setter (EnableCompression q w ht) = enableCompression q w ht"
| "setter (EnableChunkedUploads n) = enableChunkedUploads n"

definition call :: "builder_call \<Rightarrow> UploadConfigBuilder \<Rightarrow> heap \<Rightarrow> heap" where
  "call c this h = assign this (setter c) h"

definition run_calls :: "builder_call list \<Rightarrow> UploadConfigBuilder \<Rightarrow> heap \<Rightarrow> heap" where
  "run_calls cs this h = fold (\<lambda>c. call c this) cs h"

text \<open>\<^verbatim>\<open>UploadConfigBuilder.build\<close>: throws, or fills in \<^verbatim>\<open>defaultMaxSize\<close> and returns
  \<^verbatim>\<open>this.config\<close>, the reference the builder holds.\<close>

definition build :: "UploadConfigBuilder \<Rightarrow> heap \<Rightarrow> error + (nat \<times> heap)" where
  "build this h =
     (if p_storage (objs h (config this)) = None then Inl StorageRequired
      else if p_fileTypes (objs h (config this)) = None then Inl FileTypesRequired
      else if \<not> truthy_number (p_defaultMaxSize (objs h (config this)))
      then Inr (config this,
                assign this
                  (\<lambda>obj. obj\<lparr>p_defaultMaxSize := Some (Finite (5 * 1024 * 1024))\<rparr>) h)
      else Inr (config this, h))"

text \<open>\<^verbatim>\<open>this.config as UploadConfig\<close>: how the service reads the object. The cast checks
  nothing; \<open>None\<close> stands for an object that lacks a required property.\<close>

definition as_UploadConfig :: "PartialUploadConfig \<Rightarrow> UploadConfig option" where
  "as_UploadConfig obj =
     (case p_storage obj of
        None \<Rightarrow> None
      | Some s \<Rightarrow>
          (case p_fileTypes obj of
             None \<Rightarrow> None
           | Some ft \<Rightarrow>
               (case p_defaultMaxSize obj of
                  None \<Rightarrow> None
                | Some d \<Rightarrow>
                    Some \<lparr>storage = s, fileTypes = ft, defaultMaxSize = d,
                          virus = p_virus obj, compression = p_compression obj,
                          chunks = p_chunks obj\<rparr>)))"

definition config_at :: "heap \<Rightarrow> nat \<Rightarrow> UploadConfig option" where
  "config_at h r = as_UploadConfig (objs h r)"

text \<open>\<^verbatim>\<open>UploadModule.forRoot\<close>: a new builder, the callback, \<^verbatim>\<open>build()\<close>; the reference
  returned is what the module provides to the service as its \<^verbatim>\<open>config\<close>.\<close>

definition forRoot :: "builder_call list \<Rightarrow> heap \<Rightarrow> error + (nat \<times> heap)" where
  "forRoot configCallback h =
     (case new_UploadConfigBuilder h of
        (builder, h1) \<Rightarrow> build builder (run_calls configCallback builder h1))"

section \<open>Notions used in the statements\<close>

text \<open>The store before anything is allocated.\<close>

definition initial_heap :: heap where
  "initial_heap = \<lparr>objs = (\<lambda>r. empty_object), next_ref = 0\<rparr>"

text \<open>The policy the service reads through the reference that \<open>forRoot\<close> returns, at the
  moment \<open>forRoot\<close> returns; \<open>None\<close> when \<^verbatim>\<open>build()\<close> throws.\<close>

definition provided :: "builder_call list \<Rightarrow> heap \<Rightarrow> UploadConfig option" where
  "provided configCallback h =
     (case forRoot configCallback h of
        Inl e \<Rightarrow> None
      | Inr (r, h') \<Rightarrow> config_at h' r)"

text \<open>What \<^verbatim>\<open>build()\<close> makes of the builder's object, as a function of the object alone.\<close>

definition built_object :: "PartialUploadConfig \<Rightarrow> PartialUploadConfig option" where
  "built_object obj =
     (if p_storage obj = None \<or> p_fileTypes obj = None then None
      else if truthy_number (p_defaultMaxSize obj) then Some obj
      else Some (obj\<lparr>p_defaultMaxSize := Some (Finite (5 * 1024 * 1024))\<rparr>))"


text \<open>A \<^verbatim>\<open>virus\<close> property that is absent, or enabled with a scanner configuration.\<close>

definition scanner_present :: "VirusConfig option \<Rightarrow> bool" where
  "scanner_present v =
     (case v of None \<Rightarrow> True | Some vc \<Rightarrow> virus_enabled vc \<and> virus_config vc \<noteq> None)"

fun is_EnableCompression :: "builder_call \<Rightarrow> bool" where
  "is_EnableCompression (EnableCompression q w ht) = True"
| "is_EnableCompression c = False"

text \<open>The property of the object that a setter assigns, and two objects that agree on
  every property but one.\<close>

datatype field =
  F_storage | F_fileTypes | F_defaultMaxSize | F_virus | F_compression | F_chunks

fun assigned :: "builder_call \<Rightarrow> field" where
  "assigned (UseLocalStorage d) = F_storage"
| "assigned (UseS3Storage a s r b e) = F_storage"
| "assigned (UseAzureStorage cs ct) = F_storage"
| "assigned (UseGCPStorage pr k b) = F_storage"
| "assigned (SetFileType name c) = F_fileTypes"
| "assigned (SetDefaultMaxSize n) = F_defaultMaxSize"
| "assigned (EnableVirusScanning hst prt) = F_virus"
| "assigned (EnableCompression q w ht) = F_compression"
| "assigned (EnableChunkedUploads n) = F_chunks"

fun same_except :: "field \<Rightarrow> PartialUploadConfig \<Rightarrow> PartialUploadConfig \<Rightarrow> bool" where
  "same_except F_storage a b = (b = a\<lparr>p_storage := p_storage b\<rparr>)"
| "same_except F_fileTypes a b = (b = a\<lparr>p_fileTypes := p_fileTypes b\<rparr>)"
| "same_except F_defaultMaxSize a b = (b = a\<lparr>p_defaultMaxSize := p_defaultMaxSize b\<rparr>)"
| "same_except F_virus a b = (b = a\<lparr>p_virus := p_virus b\<rparr>)"
| "same_except F_compression a b = (b = a\<lparr>p_compression := p_compression b\<rparr>)"
| "same_except F_chunks a b = (b = a\<lparr>p_chunks := p_chunks b\<rparr>)"

section \<open>The validation order as the specification words it\<close>

text \<open>
  The specification's account of validation, for comparison with \<open>validateFile\<close>. The
  extension of a name is what follows its last dot, and a name without a dot has none.
  \<open>fileTypes\<close> is a mapping from keys to configurations: the configuration of a file is
  the entry under its MIME type if there is one, and otherwise the entry under its
  extension, if it has an extension and there is such an entry. Then the checks are
  tried in a fixed order and the first one that fails is the one reported; a file
  without an extension fails the extension check.
\<close>

definition spec_extension :: "string \<Rightarrow> string option" where
  "spec_extension name =
     (if CHR ''.'' \<in> set name
      then Some (rev (takeWhile (\<lambda>c. c \<noteq> CHR ''.'') (rev name)))
      else None)"

definition spec_resolve :: "UploadConfig \<Rightarrow> File \<Rightarrow> FileTypeConfig option" where
  "spec_resolve cfg file =
     (if fileTypes cfg (mimetype file) \<noteq> None then fileTypes cfg (mimetype file)
      else (case spec_extension (originalname file) of
              None \<Rightarrow> None
            | Some ext \<Rightarrow> fileTypes cfg ext))"

fun first_failure :: "(bool \<times> error) list \<Rightarrow> error + unit" where
  "first_failure [] = Inr ()"
| "first_failure ((fails, kind) # rest) = (if fails then Inl kind else first_failure rest)"

definition spec_validate :: "UploadConfig \<Rightarrow> File \<Rightarrow> error + unit" where
  "spec_validate cfg file =
     (case spec_resolve cfg file of
        None \<Rightarrow> Inl (UnsupportedFileType (mimetype file))
      | Some resolved \<Rightarrow>
          first_failure
            [(fsize file > maxSize resolved, FileTooLarge (maxSize resolved)),
             (mimetype file \<notin> set (allowedMimeTypes resolved), InvalidMimeType (mimetype file)),
             (spec_extension (originalname file) \<notin> Some ` set (allowedExtensions resolved),
              InvalidExtension (spec_extension (originalname file)))])"

section \<open>Example policies, files and collaborators\<close>

definition png_type :: FileTypeConfig where
  "png_type =
     \<lparr>maxSize = 1048576, allowedMimeTypes = [''image/png''], allowedExtensions = [''png'']\<rparr>"

definition text_type :: FileTypeConfig where
  "text_type =
     \<lparr>maxSize = 1024, allowedMimeTypes = [''text/plain''], allowedExtensions = [''txt'']\<rparr>"

text \<open>An S3 policy with a custom endpoint, one file type and the virus scan enabled.\<close>

definition demo_config :: UploadConfig where
  "demo_config =
     \<lparr>storage =
        \<lparr>storage_type = ''s3'',
         storage_config =
           S3 \<lparr>accessKeyId = ''id'', secretAccessKey = ''key'', region = ''eu-west-1'',
               bucket = ''media'', endpoint = Some ''http://minio:9000''\<rparr>\<rparr>,
      fileTypes = [''image/png'' \<mapsto> png_type],
      defaultMaxSize = Finite 5242880,
      virus =
        Some \<lparr>virus_enabled = True,
              virus_config = Some \<lparr>clamav = \<lparr>host = ''localhost'', port = 3310\<rparr>\<rparr>\<rparr>,
      compression = None,
      chunks = None\<rparr>"

text \<open>The same policy with a second file type and compression enabled.\<close>

definition compressing_config :: UploadConfig where
  "compressing_config =
     demo_config
       \<lparr>fileTypes := [''image/png'' \<mapsto> png_type, ''text/plain'' \<mapsto> text_type],
        compression :=
          Some \<lparr>compression_enabled = True,
                compression_config =
                  Some \<lparr>quality = Some 80, maxWidth = Some 800, maxHeight = Some 600\<rparr>\<rparr>\<rparr>"

text \<open>A policy whose only file type is keyed by the extension \<^verbatim>\<open>png\<close>.\<close>

definition by_extension_config :: UploadConfig where
  "by_extension_config = demo_config\<lparr>fileTypes := [''png'' \<mapsto> png_type]\<rparr>"

definition demo_file :: File where
  "demo_file =
     \<lparr>buffer = [137, 80, 78, 71], mimetype = ''image/png'', originalname = ''a.png'',
      fsize = 4\<rparr>"

text \<open>Files whose names the client chose: a PNG named \<^verbatim>\<open>png\<close>, and two text files
  whose extension or whole name is a property name of \<^verbatim>\<open>Object.prototype\<close>.\<close>

definition dotless_file :: File where
  "dotless_file = demo_file\<lparr>originalname := ''png''\<rparr>"

definition constructor_file :: File where
  "constructor_file =
     \<lparr>buffer = [104, 105], mimetype = ''text/plain'', originalname = ''x.constructor'',
      fsize = 2\<rparr>"

definition valueOf_file :: File where
  "valueOf_file =
     \<lparr>buffer = [104, 105], mimetype = ''text/plain'', originalname = ''valueOf'', fsize = 2\<rparr>"

definition text_file :: File where
  "text_file =
     \<lparr>buffer = [104, 105], mimetype = ''text/plain'', originalname = ''notes.txt'', fsize = 2\<rparr>"

text \<open>
  Collaborators that never throw. The codec's pipeline object is the content itself; each
  codec step changes it, so that a compressed content differs from its input. The scanner
  reports an infection when \<open>infected\<close> is set.
\<close>

definition demo_env :: "bool \<Rightarrow> bytes Env" where
  "demo_env infected =
     \<lparr>sharp = (\<lambda>b. b),
      sharp_resize = (\<lambda>i w ht. Inr (take 2 i)),
      sharp_jpeg = (\<lambda>i q. Inr (rev i)),
      sharp_toBuffer = (\<lambda>i. Inr (0 # i)),
      clam_init = (\<lambda>hst prt. None),
      clam_scanStream =
        (\<lambda>hst prt b. Inr (infected, if infected then [''Eicar-Test-Signature''] else [])),
      path_join =
        (\<lambda>d name. case d of
                     None \<Rightarrow> Inl ''ERR_INVALID_ARG_TYPE''
                   | Some dir \<Rightarrow> Inr (dir @ ''/'' @ name)),
      fs_writeFile = (\<lambda>path b. None),
      s3_send = (\<lambda>c i. None),
      azure_upload = (\<lambda>cs ct name b m. Inr (''https://blob.example/'' @ name)),
      gcp_save = (\<lambda>pr k bk name b m. None)\<rparr>"

text \<open>The S3 policy with compression enabled at quality 0.\<close>

definition zero_quality_config :: UploadConfig where
  "zero_quality_config =
     demo_config
       \<lparr>compression :=
          Some \<lparr>compression_enabled = True,
                compression_config =
                  Some \<lparr>quality = Some 0, maxWidth = Some 800, maxHeight = None\<rparr>\<rparr>\<rparr>"

text \<open>The same S3 policy with local storage instead.\<close>

definition local_config :: UploadConfig where
  "local_config =
     demo_config
       \<lparr>storage :=
          \<lparr>storage_type = ''local'',
           storage_config = Local \<lparr>destination = ''uploads''\<rparr>\<rparr>\<rparr>"

text \<open>A builder on which \<^verbatim>\<open>useLocalStorage\<close> and \<^verbatim>\<open>setFileType\<close> have been called
  (\<open>demo_heap\<close>), and the store after its \<^verbatim>\<open>build()\<close> (\<open>demo_built\<close>).\<close>

definition demo_builder :: UploadConfigBuilder where
  "demo_builder = fst (new_UploadConfigBuilder initial_heap)"

definition demo_heap :: heap where
  "demo_heap =
     run_calls [UseLocalStorage ''uploads'', SetFileType ''image/png'' png_type] demo_builder
       (snd (new_UploadConfigBuilder initial_heap))"

definition demo_built :: heap where
  "demo_built = snd (projr (build demo_builder demo_heap))"

section \<open>Properties of validation\<close>

lemmas pipeline_defs =
  uploadFile_def validateFile_def fileExtension_def pop_def to_string_def or_else_def
  lookup_fileType_def object_prototype_names_def
  scan_and_store_def virus_on_def scanForVirus_def scan_try_def storeFile_def
  storeFileToS3_def s3_client_def s3_command_def compressImage_def compression_on_def
  compression_options_def resize_step_def jpeg_step_def truthy_def

lemmas demo_defs =
  demo_config_def compressing_config_def zero_quality_config_def local_config_def
  by_extension_config_def demo_file_def dotless_file_def constructor_file_def
  valueOf_file_def text_file_def demo_env_def png_type_def text_type_def

lemmas setter_defs =
  useLocalStorage_def useS3Storage_def useAzureStorage_def useGCPStorage_def setFileType_def
  setDefaultMaxSize_def enableVirusScanning_def enableCompression_def enableChunkedUploads_def

lemmas heap_defs =
  demo_builder_def demo_heap_def demo_built_def initial_heap_def new_UploadConfigBuilder_def
  run_calls_def call_def assign_def build_def config_at_def as_UploadConfig_def
  empty_object_def

lemma array_includes_iff: "array_includes xs v = (v \<in> Some ` set xs)"
  by (induction xs) auto

lemma split_on_not_Nil: "split_on sep s \<noteq> []"
  by (induction s) (auto split: list.splits)

lemma split_on_no_sep: "sep \<notin> set s \<Longrightarrow> split_on sep s = [s]"
  by (induction s) auto

lemma split_on_length: "length (split_on sep s) = Suc (length (filter (\<lambda>c. c = sep) s))"
  by (induction s) (auto split: list.splits)

lemma split_on_last: "last (split_on sep (xs @ sep # ys)) = last (split_on sep ys)"
proof (induction xs)
  case Nil
  then show ?case by (simp add: split_on_not_Nil)
next
  case (Cons a xs)
  have "length (split_on sep (xs @ sep # ys)) \<ge> 2"
    by (simp add: split_on_length)
  then obtain w v vs where "split_on sep (xs @ sep # ys) = w # v # vs"
    by (cases "split_on sep (xs @ sep # ys)"; cases "tl (split_on sep (xs @ sep # ys))") auto
  with Cons show ?case by auto
qed

text \<open>Without a dot in the name, the code takes the whole name as the extension; with
  a dot, what follows the last dot, as the specification does.\<close>

lemma fileExtension_no_dot:
  "CHR ''.'' \<notin> set (originalname file) \<Longrightarrow> fileExtension file = Some (originalname file)"
  by (simp add: fileExtension_def pop_def split_on_no_sep)

lemma fileExtension_after_last_dot:
  assumes "originalname file = stem @ CHR ''.'' # ext" and "CHR ''.'' \<notin> set ext"
  shows "fileExtension file = Some ext"
  using assms
  by (simp add: fileExtension_def pop_def split_on_not_Nil split_on_last split_on_no_sep)

lemma fileExtension_spec:
  assumes "CHR ''.'' \<in> set (originalname file)"
  shows "fileExtension file = spec_extension (originalname file)"
proof -
  from assms obtain stem ext where
    name: "originalname file = stem @ CHR ''.'' # ext" and ext: "CHR ''.'' \<notin> set ext"
    by (auto dest: split_list_last)
  from ext have "takeWhile (\<lambda>c. c \<noteq> CHR ''.'') (rev ext @ CHR ''.'' # rev stem) = rev ext"
    by (subst takeWhile_append2) auto
  with name have "spec_extension (originalname file) = Some ext"
    by (simp add: spec_extension_def)
  with fileExtension_after_last_dot [OF name ext] show ?thesis by simp
qed

lemma fileExtension_fsize [simp]: "fileExtension (file\<lparr>fsize := n\<rparr>) = fileExtension file"
  by (simp add: fileExtension_def)

lemma validateFile_defaultMaxSize [simp]:
  "validateFile (cfg\<lparr>defaultMaxSize := d\<rparr>) file = validateFile cfg file"
  by (simp add: validateFile_def)

text \<open>A property read that finds nothing on the prototype chain is the lookup in the
  mapping.\<close>

lemma lookup_fileType_plain:
  "lookup_fileType ft key \<noteq> Other \<Longrightarrow>
   lookup_fileType ft key = (case ft key of None \<Rightarrow> Falsy | Some c \<Rightarrow> Config c)"
  by (auto simp: lookup_fileType_def split: option.splits if_splits)

text \<open>
  Where the name of the file has a dot and neither probe finds an inherited property,
  \<open>validateFile\<close> is the specification's validation: the configuration is resolved by
  the MIME type first and by the extension only when the MIME type has no entry, and the
  first check that fails, in the order size, MIME type, extension, gives the only error.
\<close>

lemma validateFile_order_on_plain_names:
  assumes "CHR ''.'' \<in> set (originalname file)"
    and "lookup_fileType (fileTypes cfg) (mimetype file) \<noteq> Other"
    and "lookup_fileType (fileTypes cfg) (to_string (fileExtension file)) \<noteq> Other"
  shows "validateFile cfg file = spec_validate cfg file"
proof -
  obtain ext where ext: "spec_extension (originalname file) = Some ext"
    using assms(1) by (simp add: spec_extension_def)
  with fileExtension_spec [OF assms(1)] have code_ext: "fileExtension file = Some ext"
    by simp
  show ?thesis
    using lookup_fileType_plain [OF assms(2)] lookup_fileType_plain [OF assms(3)]
    by (cases "fileTypes cfg (mimetype file)"; cases "fileTypes cfg ext")
       (auto simp: validateFile_def spec_validate_def spec_resolve_def or_else_def
          array_includes_iff ext code_ext to_string_def)
qed

text \<open>When both probes are falsy, \<open>uploadFile\<close> fails with \<open>UnsupportedFileType\<close> and calls
  no collaborator, whatever \<open>defaultMaxSize\<close> and the size of the file are.\<close>

lemma unsupported_type_on_falsy_probes:
  assumes "lookup_fileType (fileTypes cfg) (mimetype file) = Falsy"
    and "lookup_fileType (fileTypes cfg) (to_string (fileExtension file)) = Falsy"
  shows "uploadFile (cfg\<lparr>defaultMaxSize := d\<rparr>) env (file\<lparr>fsize := n\<rparr>) =
           (Inl (UnsupportedFileType (mimetype file)), [])"
  using assms by (simp add: uploadFile_def validateFile_def or_else_def)

text \<open>
  C2. Two files at which \<open>validateFile\<close> is not the specification's validation. For
  \<^verbatim>\<open>x.constructor\<close> with MIME type \<^verbatim>\<open>text/plain\<close>, neither probe key is a key of the
  mapping and the specification reports \<open>UnsupportedFileType\<close>; in the code the probe
  \<^verbatim>\<open>fileTypes["constructor"]\<close> finds the inherited \<^verbatim>\<open>Object.prototype.constructor\<close>, and
  validation throws a \<open>TypeError\<close>. For the PNG named \<^verbatim>\<open>png\<close> under a policy keyed by
  the extension \<^verbatim>\<open>png\<close>, the name has no extension and the specification reports
  \<open>UnsupportedFileType\<close>; the code probes with the whole name and validation succeeds.
\<close>

theorem validation_departs_from_specification:
  "validateFile demo_config constructor_file = Inl TypeError \<and>
   spec_validate demo_config constructor_file = Inl (UnsupportedFileType ''text/plain'') \<and>
   validateFile by_extension_config dotless_file = Inr () \<and>
   spec_validate by_extension_config dotless_file = Inl (UnsupportedFileType ''image/png'')"
  by (simp add: pipeline_defs demo_defs spec_validate_def spec_resolve_def spec_extension_def)

text \<open>
  C3. The name \<^verbatim>\<open>png\<close> contains no dot. \<^verbatim>\<open>"png".split(".").pop()\<close> is the whole name,
  not an empty or undefined extension, so under a policy that allows the extension
  \<^verbatim>\<open>png\<close> the file passes the extension check and validation succeeds, where the claim
  has it fail with \<open>InvalidExtension\<close>.
\<close>

theorem dotless_name_passes_extension_check:
  "CHR ''.'' \<notin> set ''png'' \<and>
   fileExtension (demo_file\<lparr>originalname := ''png''\<rparr>) = Some ''png'' \<and>
   validateFile demo_config (demo_file\<lparr>originalname := ''png''\<rparr>) = Inr ()"
  by (simp add: pipeline_defs demo_defs)

text \<open>
  C6. Two uploads of files whose MIME type and extension are both absent from the keys
  of \<open>fileTypes\<close>, and that do not fail with \<open>UnsupportedFileType\<close>. The text file named
  \<^verbatim>\<open>valueOf\<close> fails with a \<open>TypeError\<close>, since \<^verbatim>\<open>fileTypes["valueOf"]\<close> finds the
  inherited \<^verbatim>\<open>Object.prototype.valueOf\<close>. The PNG named \<^verbatim>\<open>png\<close>, which has no
  extension, is accepted and stored under a policy keyed by the extension \<^verbatim>\<open>png\<close>,
  since the code probes with the whole name.
\<close>

theorem absent_keys_without_UnsupportedFileType:
  "fileTypes demo_config (mimetype valueOf_file) = None \<and>
   fileTypes demo_config (originalname valueOf_file) = None \<and>
   spec_extension (originalname valueOf_file) = None \<and>
   uploadFile demo_config (demo_env False) valueOf_file = (Inl TypeError, []) \<and>
   fileTypes by_extension_config (mimetype dotless_file) = None \<and>
   spec_extension (originalname dotless_file) = None \<and>
   fst (uploadFile by_extension_config (demo_env False) dotless_file) =
     Inr ''https://media.s3.eu-west-1.amazonaws.com/png''"
  by (simp add: pipeline_defs demo_defs spec_extension_def)

section \<open>Properties of the pipeline\<close>

text \<open>
  C1. An upload of a valid file under a policy with the virus scan enabled, with a scanner
  that reports \<^verbatim>\<open>isInfected = true\<close> and one signature. The error thrown for the
  infection is thrown inside the \<^verbatim>\<open>try\<close> block, so the \<^verbatim>\<open>catch\<close> of the same block
  replaces it: \<open>uploadFile\<close> fails with \<open>ScanFailed\<close> (wrapping the infection error), not
  with \<open>InfectedFile\<close>. No storage backend is called: the log holds the two scanner
  calls only.
\<close>

theorem infected_upload_reports_ScanFailed:
  "uploadFile demo_config (demo_env True) demo_file =
     (Inl (ScanFailed (InfectedFile [''Eicar-Test-Signature''])),
      [ClamInit ''localhost'' 3310, ClamScanStream [137, 80, 78, 71]])"
  by (simp add: pipeline_defs demo_defs)

lemma scanForVirus_events:
  "e \<in> set (snd (scanForVirus cfg env file)) \<Longrightarrow> content_of e = Some b \<Longrightarrow> b = buffer file"
  by (auto simp: scanForVirus_def split: option.splits if_splits sum.splits)

lemma storeFile_events:
  "e \<in> set (snd (storeFile cfg env file name)) \<Longrightarrow> content_of e = Some b \<Longrightarrow> b = buffer file"
  by (auto simp: storeFile_def storeFileLocally_def storeFileToS3_def storeFileToAzure_def
        storeFileToGCP_def s3_command_def Let_def split: option.splits if_splits sum.splits)

lemma scan_and_store_events:
  assumes "e \<in> set (snd (scan_and_store cfg env file))" and "content_of e = Some b"
  shows "b = buffer file"
proof -
  obtain r1 t1 where scan: "scanForVirus cfg env file = (r1, t1)"
    by (cases "scanForVirus cfg env file")
  obtain r2 t2 where store: "storeFile cfg env file (originalname file) = (r2, t2)"
    by (cases "storeFile cfg env file (originalname file)")
  from assms(1) scan store have "e \<in> set t1 \<or> e \<in> set t2"
    by (auto simp: scan_and_store_def split: if_splits sum.splits)
  then show ?thesis
  proof
    assume "e \<in> set t1"
    with scan have "e \<in> set (snd (scanForVirus cfg env file))" by simp
    then show ?thesis using assms(2) by (rule scanForVirus_events)
  next
    assume "e \<in> set t2"
    with store have "e \<in> set (snd (storeFile cfg env file (originalname file)))" by simp
    then show ?thesis using assms(2) by (rule storeFile_events)
  qed
qed

text \<open>
  C7. When the MIME type of the file does not start with \<^verbatim>\<open>image/\<close>, or compression is
  disabled or absent in the policy, the compression stage does nothing: \<open>uploadFile\<close> is
  validation followed by the scan and the store of the file as it was given, and every
  content handed to the scanner or to a storage backend is the input content.
\<close>

theorem compression_noop:
  assumes "\<not> prefix ''image/'' (mimetype file) \<or> \<not> compression_on cfg"
  shows "uploadFile cfg env file =
           (case validateFile cfg file of
              Inl e \<Rightarrow> (Inl e, [])
            | Inr u \<Rightarrow> scan_and_store cfg env file) \<and>
         (\<forall>e \<in> set (snd (uploadFile cfg env file)).
            \<forall>b. content_of e = Some b \<longrightarrow> b = buffer file)"
proof -
  have eq: "uploadFile cfg env file =
           (case validateFile cfg file of
              Inl e \<Rightarrow> (Inl e, [])
            | Inr u \<Rightarrow> scan_and_store cfg env file)"
    using assms
    by (cases "scan_and_store cfg env file")
       (auto simp: uploadFile_def compressImage_def split: sum.splits)
  have "b = buffer file"
    if "e \<in> set (snd (uploadFile cfg env file))" and "content_of e = Some b" for e b
  proof (cases "validateFile cfg file")
    case (Inl a)
    with that eq show ?thesis by simp
  next
    case (Inr u)
    with that eq have "e \<in> set (snd (scan_and_store cfg env file))" by simp
    then show ?thesis using that(2) by (rule scan_and_store_events)
  qed
  with eq show ?thesis by blast
qed

theorem compression_noop_witness:
  "\<not> prefix ''image/'' (mimetype text_file) \<and>
   compression_on compressing_config \<and>
   uploadFile compressing_config (demo_env False) text_file =
     (Inr ''https://media.s3.eu-west-1.amazonaws.com/notes.txt'',
      [ClamInit ''localhost'' 3310,
       ClamScanStream (buffer text_file),
       S3Send (s3_client (storage_config (storage compressing_config)))
         \<lparr>Bucket = Some ''media'', Key = ''notes.txt'', Body = buffer text_file,
          ContentType = ''text/plain''\<rparr>])"
  using compression_noop [of text_file compressing_config "demo_env False"]
  by (simp add: pipeline_defs demo_defs)

subsection \<open>The locator of an S3 upload\<close>

lemma storeFile_s3:
  assumes "storage cfg = \<lparr>storage_type = ''s3'', storage_config = S3 c\<rparr>"
    and "storeFile cfg env file name = (Inr url, t)"
  shows "url = ''https://'' @ bucket c @ ''.s3.'' @ region c @ ''.amazonaws.com/'' @ name \<and>
         t = [S3Send (s3_client (S3 c))
                \<lparr>Bucket = Some (bucket c), Key = name, Body = buffer file,
                 ContentType = mimetype file\<rparr>]"
  using assms
  by (auto simp: storeFile_def storeFileToS3_def s3_command_def to_string_def Let_def
        split: option.splits)

lemma scan_and_store_s3:
  assumes "storage cfg = \<lparr>storage_type = ''s3'', storage_config = S3 c\<rparr>"
    and "scan_and_store cfg env file = (Inr url, t)"
  shows "url = ''https://'' @ bucket c @ ''.s3.'' @ region c @ ''.amazonaws.com/''
               @ originalname file \<and>
         S3Send (s3_client (S3 c))
           \<lparr>Bucket = Some (bucket c), Key = originalname file, Body = buffer file,
            ContentType = mimetype file\<rparr> \<in> set t"
proof -
  obtain r2 t2 where store: "storeFile cfg env file (originalname file) = (r2, t2)"
    by (cases "storeFile cfg env file (originalname file)")
  from assms(2) store have "r2 = Inr url" and "set t2 \<subseteq> set t"
    by (auto simp: scan_and_store_def split: prod.splits sum.splits if_splits)
  with store storeFile_s3 [OF assms(1), of env "file" "originalname file" url t2]
  show ?thesis by auto
qed

text \<open>
  C8. Under a policy whose storage is S3 with bucket \<open>B\<close> and region \<open>R\<close>, whatever the
  endpoint \<open>e\<close> (absent or custom), a successful \<open>uploadFile\<close> returns the locator
  \<^verbatim>\<open>https://{B}.s3.{R}.amazonaws.com/{K}\<close> where \<open>K\<close> is the original name of the file,
  and the object was put in bucket \<open>B\<close> under that same key.
\<close>

theorem s3_locator:
  assumes "storage cfg =
             \<lparr>storage_type = ''s3'',
              storage_config =
                S3 \<lparr>accessKeyId = a, secretAccessKey = s, region = R, bucket = B,
                    endpoint = e\<rparr>\<rparr>"
    and "uploadFile cfg env file = (Inr url, t)"
  shows "url = ''https://'' @ B @ ''.s3.'' @ R @ ''.amazonaws.com/'' @ originalname file \<and>
         (\<exists>c body. S3Send c \<lparr>Bucket = Some B, Key = originalname file, Body = body,
                       ContentType = mimetype file\<rparr> \<in> set t)"
proof -
  from assms(2) obtain file' t' where
    ss: "scan_and_store cfg env file' = (Inr url, t')" and sub: "set t' \<subseteq> set t"
    and same: "originalname file' = originalname file" "mimetype file' = mimetype file"
    by (auto simp: uploadFile_def split: sum.splits if_splits prod.splits)
  from scan_and_store_s3 [OF assms(1) ss] same sub show ?thesis
    by auto
qed

theorem s3_locator_witness:
  "storage demo_config =
     \<lparr>storage_type = ''s3'',
      storage_config =
        S3 \<lparr>accessKeyId = ''id'', secretAccessKey = ''key'', region = ''eu-west-1'',
            bucket = ''media'', endpoint = Some ''http://minio:9000''\<rparr>\<rparr> \<and>
   fst (uploadFile demo_config (demo_env False) demo_file) =
     Inr ''https://media.s3.eu-west-1.amazonaws.com/a.png''"
  using s3_locator [of demo_config "''id''" "''key''" "''eu-west-1''" "''media''"
      "Some ''http://minio:9000''" "demo_env False" demo_file
      "''https://media.s3.eu-west-1.amazonaws.com/a.png''"
      "snd (uploadFile demo_config (demo_env False) demo_file)"]
  by (simp add: pipeline_defs demo_defs)

subsection \<open>The errors each stage can throw\<close>

lemma validateFile_kinds:
  assumes "validateFile cfg file = Inl e"
  shows "e = UnsupportedFileType (mimetype file) \<or> e = TypeError \<or>
         (\<exists>n. e = FileTooLarge n) \<or>
         e = InvalidMimeType (mimetype file) \<or> e = InvalidExtension (fileExtension file)"
  using assms by (auto simp: validateFile_def split: probe.splits if_splits)

lemma compressImage_kinds:
  assumes "fst (compressImage cfg env file) = Inl e"
  shows "(\<exists>m. e = External m) \<or> (\<exists>m. e = CompressionError (External m))"
  using assms by (auto simp: compressImage_def split: prod.splits sum.splits if_splits)

lemma scanForVirus_kinds:
  assumes "fst (scanForVirus cfg env file) = Inl e"
  shows "e = ScannerMisconfigured \<or> (\<exists>m. e = External m) \<or> (\<exists>e'. e = ScanFailed e')"
  using assms by (auto simp: scanForVirus_def split: option.splits sum.splits if_splits)

lemma storeFile_kinds:
  assumes "fst (storeFile cfg env file name) = Inl e"
  shows "(\<exists>m. e = External m) \<or> e = UnsupportedStorageType (storage_type (storage cfg))"
  using assms
  by (auto simp: storeFile_def storeFileLocally_def storeFileToS3_def storeFileToAzure_def
        storeFileToGCP_def Let_def split: option.splits sum.splits if_splits)

lemma scan_and_store_error_source:
  assumes "fst (scan_and_store cfg env file) = Inl e"
  shows "fst (scanForVirus cfg env file) = Inl e \<or>
         fst (storeFile cfg env file (originalname file)) = Inl e"
  using assms
  by (cases "scanForVirus cfg env file"; cases "storeFile cfg env file (originalname file)")
     (auto simp: scan_and_store_def split: if_splits sum.splits)

lemma uploadFile_error_source:
  assumes "fst (uploadFile cfg env file) = Inl e"
  shows "validateFile cfg file = Inl e \<or> fst (compressImage cfg env file) = Inl e \<or>
         (\<exists>f. fst (scan_and_store cfg env f) = Inl e)"
proof (cases "validateFile cfg file")
  case (Inl e')
  with assms show ?thesis by (simp add: uploadFile_def)
next
  case (Inr u)
  show ?thesis
  proof (cases "prefix ''image/'' (mimetype file)")
    case False
    with Inr assms have "fst (scan_and_store cfg env file) = Inl e"
      by (simp add: uploadFile_def)
    then show ?thesis by blast
  next
    case True
    obtain r0 t0 where comp: "compressImage cfg env file = (r0, t0)"
      by (cases "compressImage cfg env file")
    show ?thesis
    proof (cases r0)
      case (Inl e')
      with Inr True comp assms show ?thesis by (simp add: uploadFile_def)
    next
      case r0: (Inr b)
      with Inr True comp assms have "fst (scan_and_store cfg env (file\<lparr>buffer := b\<rparr>)) = Inl e"
        by (simp add: uploadFile_def split: prod.splits)
      then show ?thesis by blast
    qed
  qed
qed

lemma uploadFile_kinds:
  assumes "fst (uploadFile cfg env file) = Inl e"
  shows "(\<exists>m. e = UnsupportedFileType m) \<or> e = TypeError \<or> (\<exists>n. e = FileTooLarge n) \<or>
         (\<exists>m. e = InvalidMimeType m) \<or> (\<exists>x. e = InvalidExtension x) \<or>
         (\<exists>m. e = External m) \<or> (\<exists>e'. e = CompressionError e') \<or>
         (\<exists>e'. e = ScanFailed e') \<or> (\<exists>m. e = UnsupportedStorageType m) \<or>
         (e = ScannerMisconfigured \<and> \<not> scanner_present (virus cfg))"
proof -
  from uploadFile_error_source [OF assms]
  consider "validateFile cfg file = Inl e" | "fst (compressImage cfg env file) = Inl e"
    | f where "fst (scanForVirus cfg env f) = Inl e"
    | f where "fst (storeFile cfg env f (originalname f)) = Inl e"
    using scan_and_store_error_source by blast
  then show ?thesis
  proof cases
    case 1
    from validateFile_kinds [OF 1] show ?thesis by blast
  next
    case 2
    from compressImage_kinds [OF 2] show ?thesis by blast
  next
    case 3
    have "\<not> scanner_present (virus cfg)" if "e = ScannerMisconfigured"
      using 3 that
      by (auto simp: scanForVirus_def scanner_present_def
            split: option.splits sum.splits if_splits)
    with scanForVirus_kinds [OF 3] show ?thesis by blast
  next
    case 4
    from storeFile_kinds [OF 4] show ?thesis by blast
  qed
qed

text \<open>No upload ever fails with \<open>InfectedFile\<close>: an infection reported by the scanner
  reaches the caller as \<open>ScanFailed\<close>, after the scanner calls and before any store.\<close>

lemma uploadFile_never_InfectedFile: "fst (uploadFile cfg env file) \<noteq> Inl (InfectedFile vs)"
  using uploadFile_kinds [of cfg env "file" "InfectedFile vs"] by auto

lemma infected_scan_and_store:
  assumes "virus cfg = Some v" and "virus_enabled v" and "virus_config v = Some vc"
    and "clam_init env (host (clamav vc)) (port (clamav vc)) = None"
    and "clam_scanStream env (host (clamav vc)) (port (clamav vc)) (buffer file) =
           Inr (True, viruses)"
  shows "scan_and_store cfg env file =
           (Inl (ScanFailed (InfectedFile viruses)),
            [ClamInit (host (clamav vc)) (port (clamav vc)), ClamScanStream (buffer file)])"
  using assms by (simp add: scan_and_store_def virus_on_def scanForVirus_def scan_try_def)

text \<open>With the scan enabled and a scanner that reports every content infected, no
  upload reaches a storage backend.\<close>

lemma compressImage_no_store: "e \<in> set (snd (compressImage cfg env file)) \<Longrightarrow> \<not> is_store e"
  by (auto simp: compressImage_def resize_step_def jpeg_step_def
        split: option.splits sum.splits if_splits prod.splits)

lemma infected_upload_no_store:
  assumes "virus cfg = Some v" and "virus_enabled v" and "virus_config v = Some vc"
    and "clam_init env (host (clamav vc)) (port (clamav vc)) = None"
    and "\<And>b. \<exists>viruses.
           clam_scanStream env (host (clamav vc)) (port (clamav vc)) b = Inr (True, viruses)"
    and "e \<in> set (snd (uploadFile cfg env file))"
  shows "\<not> is_store e"
proof -
  have ss: "\<not> is_store e" if "e \<in> set (snd (scan_and_store cfg env f))" for f
  proof -
    from assms(5) obtain viruses where
      "clam_scanStream env (host (clamav vc)) (port (clamav vc)) (buffer f) = Inr (True, viruses)"
      by blast
    from infected_scan_and_store [OF assms(1-4) this] that show ?thesis by auto
  qed
  show ?thesis
  proof (cases "validateFile cfg file")
    case (Inl e')
    with assms(6) show ?thesis by (simp add: uploadFile_def)
  next
    case (Inr u)
    show ?thesis
    proof (cases "prefix ''image/'' (mimetype file)")
      case False
      with Inr assms(6) ss [of "file"] show ?thesis by (simp add: uploadFile_def)
    next
      case True
      obtain r0 t0 where comp: "compressImage cfg env file = (r0, t0)"
        by (cases "compressImage cfg env file")
      with compressImage_no_store [of _ cfg env "file"]
      have t0: "\<not> is_store x" if "x \<in> set t0" for x using that by simp
      show ?thesis
      proof (cases r0)
        case (Inl e')
        with Inr True comp assms(6) t0 show ?thesis by (simp add: uploadFile_def)
      next
        case r0: (Inr b)
        obtain r1 t1 where s1: "scan_and_store cfg env (file\<lparr>buffer := b\<rparr>) = (r1, t1)"
          by (cases "scan_and_store cfg env (file\<lparr>buffer := b\<rparr>)")
        with ss [of "file\<lparr>buffer := b\<rparr>"]
        have t1: "\<not> is_store e" if "e \<in> set t1" using that by simp
        from Inr True comp r0 s1 assms(6) have "e \<in> set t0 \<or> e \<in> set t1"
          by (simp add: uploadFile_def)
        with t0 t1 show ?thesis by blast
      qed
    qed
  qed
qed

section \<open>Properties of the builder\<close>

lemma objs_assign:
  "objs (assign this f h) r = (if r = config this then f (objs h r) else objs h r)"
  by (simp add: assign_def)

lemma objs_run_calls:
  "objs (run_calls cs this h) r =
     (if r = config this then fold setter cs (objs h r) else objs h r)"
proof (induction cs arbitrary: h)
  case Nil
  then show ?case by (simp add: run_calls_def)
next
  case (Cons c cs)
  have "run_calls (c # cs) this h = run_calls cs this (call c this h)"
    by (simp add: run_calls_def)
  with Cons [of "call c this h"] show ?case
    by (simp add: call_def objs_assign)
qed

lemma build_object:
  "build this h =
     (case built_object (objs h (config this)) of
        None \<Rightarrow>
          Inl (if p_storage (objs h (config this)) = None then StorageRequired
               else FileTypesRequired)
      | Some obj \<Rightarrow> Inr (config this, h\<lparr>objs := (objs h)(config this := obj)\<rparr>))"
  by (auto simp: build_def built_object_def assign_def)

text \<open>The policy provided is a function of the calls alone: the setters folded over the
  empty object, then the checks and the default of \<^verbatim>\<open>build()\<close>, then the cast.\<close>

lemma provided_eq:
  "provided cs h =
     (case built_object (fold setter cs empty_object) of
        None \<Rightarrow> None
      | Some obj \<Rightarrow> as_UploadConfig obj)"
  by (simp add: provided_def forRoot_def new_UploadConfigBuilder_def build_object
        objs_run_calls config_at_def split: option.splits)

text \<open>Whenever \<^verbatim>\<open>build()\<close> returns, the object it returns has the required properties.\<close>

lemma forRoot_provided:
  assumes "forRoot cs h = Inr (r, h')"
  shows "\<exists>cfg. provided cs h = Some cfg"
  using assms
  by (auto simp: provided_def forRoot_def new_UploadConfigBuilder_def build_object
        built_object_def config_at_def as_UploadConfig_def
        split: option.splits if_splits)

subsection \<open>Aliasing of the returned policy\<close>

lemma setter_same_except: "same_except (assigned c) obj (setter c obj)"
  by (cases c) (simp_all add: setter_defs)

text \<open>
  C4, as the code has it. \<^verbatim>\<open>build()\<close> returns the reference the builder holds, not a
  copy: a setter called on the builder afterwards rewrites the returned object, in
  exactly the property that setter assigns, and leaves its other properties as they
  were; calling \<^verbatim>\<open>build()\<close> again right away changes nothing.
\<close>

theorem build_returns_alias:
  assumes "build this h = Inr (r, h1)"
  shows "r = config this \<and>
         objs (call c this h1) r = setter c (objs h1 r) \<and>
         same_except (assigned c) (objs h1 r) (objs (call c this h1) r) \<and>
         build this h1 = Inr (r, h1)"
proof -
  from assms have r: "r = config this"
    by (auto simp: build_def split: if_splits)
  have upd: "objs (call c this h1) r = setter c (objs h1 r)"
    by (simp add: r call_def objs_assign)
  from assms r have again: "build this h1 = Inr (r, h1)"
    by (auto simp: build_def assign_def split: if_splits)
  from r upd again show ?thesis
    by (simp add: setter_same_except)
qed

theorem build_returns_alias_witness:
  "build demo_builder demo_heap = Inr (0, demo_built) \<and>
   p_defaultMaxSize (objs (call (SetDefaultMaxSize (Finite 1)) demo_builder demo_built) 0) =
     Some (Finite 1) \<and>
   p_storage (objs (call (SetDefaultMaxSize (Finite 1)) demo_builder demo_built) 0) =
     p_storage (objs demo_built 0) \<and>
   build demo_builder demo_built = Inr (0, demo_built)"
  using build_returns_alias
    [of demo_builder demo_heap 0 demo_built "SetDefaultMaxSize (Finite 1)"]
  by (simp add: heap_defs setter_defs)

text \<open>
  C4, as the claim has it, fails: \<^verbatim>\<open>build()\<close> on a builder with local storage and one
  file type returns reference \<open>0\<close>, through which \<^verbatim>\<open>defaultMaxSize\<close> reads 5 MiB; after
  \<^verbatim>\<open>setDefaultMaxSize(1)\<close> on the builder, the same reference reads \<open>1\<close>.
\<close>

theorem setter_after_build_changes_config:
  "build demo_builder demo_heap = Inr (0, demo_built) \<and>
   map_option defaultMaxSize (config_at demo_built 0) = Some (Finite 5242880) \<and>
   map_option defaultMaxSize
     (config_at (call (SetDefaultMaxSize (Finite 1)) demo_builder demo_built) 0) =
     Some (Finite 1)"
  by (simp add: heap_defs setter_defs)

subsection \<open>The default of \<^verbatim>\<open>defaultMaxSize\<close>\<close>






subsection \<open>The scanner configuration of a built policy\<close>

lemma setter_scanner_present:
  "scanner_present (p_virus obj) \<Longrightarrow> scanner_present (p_virus (setter c obj))"
  by (cases c) (simp_all add: setter_defs scanner_present_def)

lemma fold_setter_scanner_present:
  "scanner_present (p_virus obj) \<Longrightarrow> scanner_present (p_virus (fold setter cs obj))"
  by (induction cs arbitrary: obj) (simp_all add: setter_scanner_present)

lemma provided_virus:
  assumes "provided cs h = Some cfg"
  shows "scanner_present (virus cfg)"
proof -
  have "scanner_present (p_virus (fold setter cs empty_object))"
    by (rule fold_setter_scanner_present) (simp add: empty_object_def scanner_present_def)
  with assms show ?thesis
    by (auto simp: provided_eq built_object_def as_UploadConfig_def
          split: option.splits if_splits)
qed

lemma scanForVirus_configured:
  "scanner_present (virus cfg) \<Longrightarrow> fst (scanForVirus cfg env file) \<noteq> Inl ScannerMisconfigured"
  by (auto simp: scanForVirus_def scanner_present_def split: option.splits sum.splits)

text \<open>
  C9. In every policy that \<^verbatim>\<open>build()\<close> produces from a sequence of builder calls, a
  \<^verbatim>\<open>virus\<close> property that is enabled carries its \<^verbatim>\<open>config\<close> with the \<^verbatim>\<open>clamav\<close> host and
  port, so neither \<open>scanForVirus\<close> nor \<open>uploadFile\<close> ever fails with
  \<open>ScannerMisconfigured\<close> under such a policy.
\<close>

theorem built_config_has_scanner:
  assumes "provided cs h = Some cfg"
  shows "(virus_on cfg \<longrightarrow>
            (\<exists>v vc. virus cfg = Some v \<and> virus_config v = Some vc)) \<and>
         fst (scanForVirus cfg env file) \<noteq> Inl ScannerMisconfigured \<and>
         fst (uploadFile cfg env file) \<noteq> Inl ScannerMisconfigured"
proof -
  from assms have sp: "scanner_present (virus cfg)" by (rule provided_virus)
  then have "virus_on cfg \<longrightarrow> (\<exists>v vc. virus cfg = Some v \<and> virus_config v = Some vc)"
    by (auto simp: scanner_present_def virus_on_def split: option.splits)
  moreover from sp have "fst (scanForVirus cfg env file) \<noteq> Inl ScannerMisconfigured"
    by (rule scanForVirus_configured)
  moreover from sp uploadFile_kinds [of cfg env "file" ScannerMisconfigured]
  have "fst (uploadFile cfg env file) \<noteq> Inl ScannerMisconfigured"
    by auto
  ultimately show ?thesis by blast
qed

theorem built_config_has_scanner_witness:
  "provided [UseLocalStorage ''uploads'', SetFileType ''image/png'' png_type,
             EnableVirusScanning ''localhost'' 3310] initial_heap = Some local_config \<and>
   virus_on local_config \<and>
   fst (scanForVirus local_config (demo_env False) demo_file) = Inr ()"
  using built_config_has_scanner
    [of "[UseLocalStorage ''uploads'', SetFileType ''image/png'' png_type,
          EnableVirusScanning ''localhost'' 3310]" initial_heap local_config
        "demo_env False" demo_file]
  by (simp add: provided_eq built_object_def as_UploadConfig_def empty_object_def
        setter_defs demo_defs pipeline_defs)

subsection \<open>Compression at quality 0\<close>

lemma setter_compression_frame:
  "\<not> is_EnableCompression c \<Longrightarrow>
   setter c (obj\<lparr>p_compression := x\<rparr>) = (setter c obj)\<lparr>p_compression := x\<rparr>"
  by (cases c) (simp_all add: setter_defs)

lemma fold_setter_compression_frame:
  "\<forall>c \<in> set cs. \<not> is_EnableCompression c \<Longrightarrow>
   fold setter cs (obj\<lparr>p_compression := x\<rparr>) = (fold setter cs obj)\<lparr>p_compression := x\<rparr>"
  by (induction cs arbitrary: obj) (simp_all add: setter_compression_frame)

lemma fold_setter_enableCompression:
  assumes "\<forall>c \<in> set post. \<not> is_EnableCompression c"
  shows "fold setter (pre @ EnableCompression q w ht # post) obj =
           (fold setter post (fold setter pre obj))
             \<lparr>p_compression :=
                Some \<lparr>compression_enabled = True,
                      compression_config =
                        Some \<lparr>quality = q, maxWidth = w, maxHeight = ht\<rparr>\<rparr>\<rparr>"
  using fold_setter_compression_frame [OF assms]
  by (simp add: enableCompression_def)

lemma built_object_compression:
  "built_object (obj\<lparr>p_compression := x\<rparr>) =
     map_option (\<lambda>o'. o'\<lparr>p_compression := x\<rparr>) (built_object obj)"
  by (simp add: built_object_def)

lemma as_UploadConfig_compression:
  "as_UploadConfig (obj\<lparr>p_compression := x\<rparr>) =
     map_option (\<lambda>c. c\<lparr>compression := x\<rparr>) (as_UploadConfig obj)"
  by (simp add: as_UploadConfig_def split: option.splits)

lemma provided_enableCompression:
  assumes "\<forall>c \<in> set post. \<not> is_EnableCompression c"
    and "provided (pre @ EnableCompression q w ht # post) h = Some cfg"
  shows "compression cfg =
           Some \<lparr>compression_enabled = True,
                 compression_config = Some \<lparr>quality = q, maxWidth = w, maxHeight = ht\<rparr>\<rparr> \<and>
         provided (pre @ EnableCompression q' w ht # post) h =
           Some (cfg\<lparr>compression :=
                   Some \<lparr>compression_enabled = True,
                         compression_config =
                           Some \<lparr>quality = q', maxWidth = w, maxHeight = ht\<rparr>\<rparr>\<rparr>)"
proof -
  define base where "base = fold setter post (fold setter pre empty_object)"
  have obj: "fold setter (pre @ EnableCompression k w ht # post) empty_object =
               base\<lparr>p_compression :=
                      Some \<lparr>compression_enabled = True,
                            compression_config =
                              Some \<lparr>quality = k, maxWidth = w, maxHeight = ht\<rparr>\<rparr>\<rparr>" for k
    unfolding base_def by (rule fold_setter_enableCompression [OF assms(1)])
  have prov: "provided (pre @ EnableCompression k w ht # post) h =
                (case built_object base of
                   None \<Rightarrow> None
                 | Some o' \<Rightarrow>
                     map_option
                       (\<lambda>c. c\<lparr>compression :=
                                 Some \<lparr>compression_enabled = True,
                                       compression_config =
                                         Some \<lparr>quality = k, maxWidth = w,
                                               maxHeight = ht\<rparr>\<rparr>\<rparr>)
                       (as_UploadConfig o'))" for k
    unfolding provided_eq obj built_object_compression
    by (simp add: as_UploadConfig_compression split: option.splits)
  from assms(2) show ?thesis
    unfolding prov by (auto split: option.splits)
qed

lemma validateFile_compression [simp]:
  "validateFile (cfg\<lparr>compression := x\<rparr>) file = validateFile cfg file"
  by (simp add: validateFile_def)

lemma scanForVirus_compression [simp]:
  "scanForVirus (cfg\<lparr>compression := x\<rparr>) env file = scanForVirus cfg env file"
  by (simp add: scanForVirus_def)

lemma storeFile_compression [simp]:
  "storeFile (cfg\<lparr>compression := x\<rparr>) env file name = storeFile cfg env file name"
  by (simp add: storeFile_def storeFileLocally_def storeFileToS3_def storeFileToAzure_def
        storeFileToGCP_def)

lemma scan_and_store_compression [simp]:
  "scan_and_store (cfg\<lparr>compression := x\<rparr>) env file = scan_and_store cfg env file"
  by (simp add: scan_and_store_def virus_on_def split: prod.splits sum.splits)

lemma compressImage_quality_zero:
  assumes "compression cfg =
             Some \<lparr>compression_enabled = True,
                   compression_config =
                     Some \<lparr>quality = q, maxWidth = w, maxHeight = ht\<rparr>\<rparr>"
    and "q = Some 0 \<or> q = None"
  shows "compressImage cfg env file =
           (case resize_step env \<lparr>quality = None, maxWidth = w, maxHeight = ht\<rparr>
                   (sharp env (buffer file)) of
              (Inl m, t) \<Rightarrow> (Inl (External m), t)
            | (Inr img, t) \<Rightarrow>
                (case sharp_toBuffer env img of
                   Inl m \<Rightarrow> (Inl (CompressionError (External m)), t @ [SharpToBuffer])
                 | Inr b \<Rightarrow> (Inr b, t @ [SharpToBuffer])))"
  using assms
  by (auto simp: compressImage_def compression_on_def compression_options_def jpeg_step_def
        resize_step_def split: prod.splits sum.splits)

lemma scan_and_store_no_codec:
  "SharpJpeg q \<notin> set (snd (scan_and_store cfg env file))"
  by (auto simp: scan_and_store_def virus_on_def scanForVirus_def storeFile_def
        storeFileLocally_def storeFileToS3_def storeFileToAzure_def storeFileToGCP_def Let_def
        split: prod.splits sum.splits option.splits if_splits)

lemma uploadFile_quality_zero:
  assumes "compression cfg =
             Some \<lparr>compression_enabled = True,
                   compression_config =
                     Some \<lparr>quality = Some 0, maxWidth = w, maxHeight = ht\<rparr>\<rparr>"
  shows "uploadFile cfg env file =
           uploadFile
             (cfg\<lparr>compression :=
                    Some \<lparr>compression_enabled = True,
                          compression_config =
                            Some \<lparr>quality = None, maxWidth = w, maxHeight = ht\<rparr>\<rparr>\<rparr>)
             env file"
proof -
  have "compressImage cfg env file =
          compressImage
            (cfg\<lparr>compression :=
                   Some \<lparr>compression_enabled = True,
                         compression_config =
                           Some \<lparr>quality = None, maxWidth = w, maxHeight = ht\<rparr>\<rparr>\<rparr>)
            env file"
    using assms
    by (simp add: compressImage_quality_zero [where q = "Some 0" and w = w and ht = ht]
          compressImage_quality_zero [where q = None and w = w and ht = ht])
  then show ?thesis
    by (simp add: uploadFile_def split: sum.splits prod.splits)
qed

lemma uploadFile_no_jpeg:
  assumes "compression cfg =
             Some \<lparr>compression_enabled = True,
                   compression_config =
                     Some \<lparr>quality = Some 0, maxWidth = w, maxHeight = ht\<rparr>\<rparr>"
  shows "SharpJpeg k \<notin> set (snd (uploadFile cfg env file))"
proof -
  have comp: "SharpJpeg k \<notin> set (snd (compressImage cfg env file))"
    using assms
    by (auto simp: compressImage_quality_zero [where q = "Some 0" and w = w and ht = ht]
          resize_step_def split: prod.splits sum.splits if_splits)
  show ?thesis
  proof (cases "compressImage cfg env file")
    case (Pair r0 t0)
    with comp have t0: "SharpJpeg k \<notin> set t0" by simp
    show ?thesis
    proof (cases r0)
      case (Inl e)
      with Pair t0 scan_and_store_no_codec [of k cfg env "file"] show ?thesis
        by (auto simp: uploadFile_def split: sum.splits)
    next
      case (Inr b)
      with Pair t0 scan_and_store_no_codec [of k cfg env "file"]
        scan_and_store_no_codec [of k cfg env "file\<lparr>buffer := b\<rparr>"]
      show ?thesis
        by (auto simp: uploadFile_def split: sum.splits prod.splits)
    qed
  qed
qed

text \<open>
  C10. Take a policy built by a sequence of calls in which \<^verbatim>\<open>enableCompression(0, w, ht)\<close>
  is the last compression call. The policy built by the same calls with the quality
  omitted differs in the stored quality only, and every upload gives the same result and
  the same calls under both. The compression of an image is the resize (when a bound is
  set and not 0) followed by \<^verbatim>\<open>toBuffer\<close> at the codec's default: no \<^verbatim>\<open>jpeg\<close> call is
  made, at quality 0 or any other.
\<close>

theorem quality_zero_is_unset:
  assumes "provided (pre @ EnableCompression (Some 0) w ht # post) h = Some cfg"
    and "\<forall>c \<in> set post. \<not> is_EnableCompression c"
  shows "provided (pre @ EnableCompression None w ht # post) h =
           Some (cfg\<lparr>compression :=
                   Some \<lparr>compression_enabled = True,
                         compression_config =
                           Some \<lparr>quality = None, maxWidth = w, maxHeight = ht\<rparr>\<rparr>\<rparr>) \<and>
         uploadFile cfg env file =
           uploadFile
             (cfg\<lparr>compression :=
                    Some \<lparr>compression_enabled = True,
                          compression_config =
                            Some \<lparr>quality = None, maxWidth = w, maxHeight = ht\<rparr>\<rparr>\<rparr>)
             env file \<and>
         compressImage cfg env file =
           (case resize_step env \<lparr>quality = None, maxWidth = w, maxHeight = ht\<rparr>
                   (sharp env (buffer file)) of
              (Inl m, t) \<Rightarrow> (Inl (External m), t)
            | (Inr img, t) \<Rightarrow>
                (case sharp_toBuffer env img of
                   Inl m \<Rightarrow> (Inl (CompressionError (External m)), t @ [SharpToBuffer])
                 | Inr b \<Rightarrow> (Inr b, t @ [SharpToBuffer]))) \<and>
         (\<forall>k. SharpJpeg k \<notin> set (snd (uploadFile cfg env file)))"
proof -
  note built = provided_enableCompression [OF assms(2) assms(1), of None]
  from built have c0: "compression cfg =
           Some \<lparr>compression_enabled = True,
                 compression_config =
                   Some \<lparr>quality = Some 0, maxWidth = w, maxHeight = ht\<rparr>\<rparr>"
    by simp
  from built show ?thesis
    using uploadFile_quality_zero [OF c0, of env "file"]
      compressImage_quality_zero [OF c0, of env "file"]
      uploadFile_no_jpeg [OF c0, of _ env "file"]
    by simp
qed

theorem quality_zero_is_unset_witness:
  "provided
     ([UseS3Storage ''id'' ''key'' ''eu-west-1'' ''media'' (Some ''http://minio:9000''),
       SetFileType ''image/png'' png_type]
      @ EnableCompression (Some 0) (Some 800) None
      # [EnableVirusScanning ''localhost'' 3310]) initial_heap = Some zero_quality_config \<and>
   uploadFile zero_quality_config (demo_env False) demo_file =
     (Inr ''https://media.s3.eu-west-1.amazonaws.com/a.png'',
      [SharpResize (Some 800) None, SharpToBuffer, ClamInit ''localhost'' 3310,
       ClamScanStream [0, 137, 80],
       S3Send (s3_client (storage_config (storage demo_config)))
         \<lparr>Bucket = Some ''media'', Key = ''a.png'', Body = [0, 137, 80],
          ContentType = ''image/png''\<rparr>])"
  using quality_zero_is_unset
    [of "[UseS3Storage ''id'' ''key'' ''eu-west-1'' ''media'' (Some ''http://minio:9000''),
          SetFileType ''image/png'' png_type]"
        "Some 800" None "[EnableVirusScanning ''localhost'' 3310]" initial_heap
        zero_quality_config "demo_env False" demo_file]
  by (simp add: provided_eq built_object_def as_UploadConfig_def empty_object_def
        setter_defs demo_defs pipeline_defs)

end
